theory Spec2Isabelle
  imports
    Main
    "HOL-Library.Sublist"
    "HOL-Library.Monad_Syntax"
    "HOL-Library.AList"
    "HOL-Library.Char_ord"
    "HOL-Library.List_Lexorder"
    "HOL-Library.Product_Lexorder"
begin

section \<open>Python values\<close>

text \<open>
  The scripts pass around what \<^verbatim>\<open>json.load\<close> and \<^verbatim>\<open>json.loads\<close> return: \<^verbatim>\<open>None\<close>,
  booleans, integers, strings, lists and dictionaries. A dictionary is an association
  list in insertion order. Numbers with a fraction or an exponent (Python floats) are
  outside this model. Strings are byte strings, so a character is a byte.
\<close>

datatype json =
    JNull
  | JBool bool
  | JInt int
  | JStr string
  | JList "json list"
  | JObj "(string \<times> json) list"

text \<open>The exceptions that occur; \<open>RequestFailed\<close> stands for any exception of the
  \<^verbatim>\<open>requests\<close> library outside the retry loop.\<close>

datatype py_error =
    KeyError
  | TypeError
  | AttributeError
  | IndexError
  | NameError
  | RequestFailed

text \<open>Truth value of a Python object, as \<^verbatim>\<open>if x:\<close> and \<^verbatim>\<open>not x\<close> read it.\<close>

fun truthy :: "json \<Rightarrow> bool" where
  "truthy JNull = False"
| "truthy (JBool b) = b"
| "truthy (JInt n) = (n \<noteq> 0)"
| "truthy (JStr s) = (s \<noteq> [])"
| "truthy (JList xs) = (xs \<noteq> [])"
| "truthy (JObj kvs) = (kvs \<noteq> [])"

text \<open>\<^verbatim>\<open>x[k]\<close> for a string key \<^verbatim>\<open>k\<close>: only a dictionary can be indexed by a string.\<close>

fun py_getitem :: "json \<Rightarrow> string \<Rightarrow> py_error + json" where
  "py_getitem (JObj kvs) k = (case map_of kvs k of None \<Rightarrow> Inl KeyError | Some v \<Rightarrow> Inr v)"
| "py_getitem _ k = Inl TypeError"

text \<open>\<^verbatim>\<open>x.get(k, d)\<close>: a method of dictionaries only.\<close>

fun py_get :: "json \<Rightarrow> string \<Rightarrow> json \<Rightarrow> py_error + json" where
  "py_get (JObj kvs) k d = (case map_of kvs k of None \<Rightarrow> Inr d | Some v \<Rightarrow> Inr v)"
| "py_get _ k d = Inl AttributeError"

text \<open>\<^verbatim>\<open>sub in s\<close> on strings: \<^verbatim>\<open>sub\<close> occurs somewhere in \<^verbatim>\<open>s\<close>.\<close>

fun contains :: "string \<Rightarrow> string \<Rightarrow> bool" where
  "contains sub [] = (sub = [])"
| "contains sub (c # cs) = (prefix sub (c # cs) \<or> contains sub cs)"

text \<open>\<^verbatim>\<open>k in x\<close> for a string \<^verbatim>\<open>k\<close>: a key of a dictionary, an element of a list, a
  substring of a string; anything else is not iterable.\<close>

fun py_in :: "string \<Rightarrow> json \<Rightarrow> py_error + bool" where
  "py_in k (JObj kvs) = Inr (k \<in> set (map fst kvs))"
| "py_in k (JList xs) = Inr (JStr k \<in> set xs)"
| "py_in k (JStr s) = Inr (contains k s)"
| "py_in k _ = Inl TypeError"

fun py_len :: "json \<Rightarrow> py_error + nat" where
  "py_len (JObj kvs) = Inr (length kvs)"
| "py_len (JList xs) = Inr (length xs)"
| "py_len (JStr s) = Inr (length s)"
| "py_len _ = Inl TypeError"

text \<open>\<^verbatim>\<open>x[0]\<close>: the first element of a list, the first character of a string; a
  JSON dictionary has string keys only, so \<^verbatim>\<open>0\<close> is never one of them.\<close>

fun py_first :: "json \<Rightarrow> py_error + json" where
  "py_first (JList []) = Inl IndexError"
| "py_first (JList (x # xs)) = Inr x"
| "py_first (JStr []) = Inl IndexError"
| "py_first (JStr (c # cs)) = Inr (JStr [c])"
| "py_first (JObj kvs) = Inl KeyError"
| "py_first _ = Inl TypeError"

text \<open>\<^verbatim>\<open>for a in x\<close>: the elements of a list, the characters of a string, the keys of a
  dictionary.\<close>

fun py_iter :: "json \<Rightarrow> py_error + json list" where
  "py_iter (JList xs) = Inr xs"
| "py_iter (JStr s) = Inr (map (\<lambda>c. JStr [c]) s)"
| "py_iter (JObj kvs) = Inr (map (\<lambda>kv. JStr (fst kv)) kvs)"
| "py_iter _ = Inl TypeError"

text \<open>\<^verbatim>\<open>sep.join(x)\<close>: \<^verbatim>\<open>x\<close> must yield strings only.\<close>

fun join_str :: "string \<Rightarrow> string list \<Rightarrow> string" where
  "join_str sep [] = []"
| "join_str sep [x] = x"
| "join_str sep (x # y # ys) = x @ sep @ join_str sep (y # ys)"

fun strings_of :: "json list \<Rightarrow> string list option" where
  "strings_of [] = Some []"
| "strings_of (JStr s # xs) = (case strings_of xs of None \<Rightarrow> None | Some ss \<Rightarrow> Some (s # ss))"
| "strings_of (_ # xs) = None"

definition py_join :: "string \<Rightarrow> json \<Rightarrow> py_error + string" where
  "py_join sep x =
     (case py_iter x of
        Inl e \<Rightarrow> Inl e
      | Inr xs \<Rightarrow> (case strings_of xs of None \<Rightarrow> Inl TypeError | Some ss \<Rightarrow> Inr (join_str sep ss)))"

text \<open>An exception caught by a \<^verbatim>\<open>try ... except Exception\<close> around the expression.\<close>

fun caught :: "py_error + 'a \<Rightarrow> 'a option" where
  "caught (Inl e) = None"
| "caught (Inr x) = Some x"

text \<open>\<^verbatim>\<open>s.split(sep)\<close> for a non-empty separator, and \<^verbatim>\<open>s.strip()\<close> (the ASCII
  characters Python counts as whitespace).\<close>

fun split_on :: "string \<Rightarrow> string \<Rightarrow> string list" where
  "split_on sep [] = [[]]"
| "split_on sep (c # cs) =
     (if sep \<noteq> [] \<and> prefix sep (c # cs) then [] # split_on sep (drop (length sep - 1) cs)
      else (case split_on sep cs of [] \<Rightarrow> [[c]] | p # ps \<Rightarrow> (c # p) # ps))"

definition is_space :: "char \<Rightarrow> bool" where
  "is_space c = (let n = (of_char c :: nat) in (9 \<le> n \<and> n \<le> 13) \<or> (28 \<le> n \<and> n \<le> 32))"

definition py_strip :: "string \<Rightarrow> string" where
  "py_strip s = rev (dropWhile is_space (rev (dropWhile is_space s)))"

fun nth_opt :: "'a list \<Rightarrow> nat \<Rightarrow> 'a option" where
  "nth_opt [] n = None"
| "nth_opt (x # xs) 0 = Some x"
| "nth_opt (x # xs) (Suc n) = nth_opt xs n"

section \<open>analyze\_papers.py: the request loop\<close>

text \<open>
  One call of \<^verbatim>\<open>requests.post\<close> either returns a response (its status code and what
  \<^verbatim>\<open>response.json()\<close> gives, \<open>None\<close> when that raises), or raises
  \<^verbatim>\<open>requests.exceptions.Timeout\<close>, or raises another
  \<^verbatim>\<open>requests.exceptions.RequestException\<close>.
\<close>

datatype attempt =
    Response int "json option"
  | Timeout
  | RequestError

record call_state =
  retry_count :: nat
  success :: bool
  response :: "(int \<times> json option) option"
  attempts :: "attempt list"

definition max_retries :: nat where
  "max_retries = 3"

definition call_start :: call_state where
  "call_start = \<lparr>retry_count = 0, success = False, response = None, attempts = []\<rparr>"

text \<open>
  The \<^verbatim>\<open>while retry_count < max_retries and not success\<close> loop. The oracle \<open>api\<close> gives
  the outcome of the \<open>k\<close>-th request for this paper; \<open>attempts\<close> records the requests
  issued, in order.
\<close>

function call_gemini :: "(nat \<Rightarrow> attempt) \<Rightarrow> call_state \<Rightarrow> call_state" where
  "call_gemini api s =
     (if retry_count s < max_retries \<and> \<not> success s then
        (case api (length (attempts s)) of
           Response code body \<Rightarrow>
             (if code = 200 then
                call_gemini api
                  (s\<lparr>success := True, response := Some (code, body),
                     attempts := attempts s @ [Response code body]\<rparr>)
              else if retry_count s + 1 \<ge> max_retries then
                s\<lparr>retry_count := retry_count s + 1, response := Some (code, body),
                  attempts := attempts s @ [Response code body]\<rparr>
              else
                call_gemini api
                  (s\<lparr>retry_count := retry_count s + 1, response := Some (code, body),
                     attempts := attempts s @ [Response code body]\<rparr>))
         | Timeout \<Rightarrow>
             call_gemini api
               (s\<lparr>retry_count := retry_count s + 1, attempts := attempts s @ [Timeout]\<rparr>)
         | RequestError \<Rightarrow>
             call_gemini api
               (s\<lparr>retry_count := retry_count s + 1, attempts := attempts s @ [RequestError]\<rparr>))
      else s)"
  by pat_completeness auto
termination
  by (relation "measure (\<lambda>(api, s). (max_retries - retry_count s) + (if success s then 0 else 1))")
     auto

declare call_gemini.simps [simp del]

text \<open>An attempt after which the loop goes round again, when retries are left.\<close>

fun retried :: "attempt \<Rightarrow> bool" where
  "retried (Response code body) = (code \<noteq> 200)"
| "retried Timeout = True"
| "retried RequestError = True"

text \<open>What the loop keeps true: the requests issued are the oracle's first outcomes, one
  per retry counted plus the successful one, and every counted retry follows a failure.\<close>

definition call_inv :: "(nat \<Rightarrow> attempt) \<Rightarrow> call_state \<Rightarrow> bool" where
  "call_inv api s \<longleftrightarrow>
     length (attempts s) = retry_count s + (if success s then 1 else 0) \<and>
     retry_count s \<le> max_retries \<and>
     attempts s = map api [0..<length (attempts s)] \<and>
     (\<forall>i < retry_count s. retried (attempts s ! i)) \<and>
     (success s \<longrightarrow> \<not> retried (last (attempts s)) \<and> retry_count s < max_retries)"

section \<open>analyze\_papers.py: reading the model's answer\<close>

definition fence :: string where
  "fence = ''```''"

definition fence_json :: string where
  "fence_json = ''```json''"

text \<open>
  Lines 156 to 162: the text of the first candidate of the response. Every exception in
  this part is caught by the outer \<^verbatim>\<open>except Exception\<close>, and an unexpected format
  is only printed; both leave \<^verbatim>\<open>analysis\<close> at \<^verbatim>\<open>None\<close>, so both are \<open>None\<close> here.
\<close>

definition response_text :: "json \<Rightarrow> json option" where
  "response_text response_data =
     do {
       has_candidates \<leftarrow> caught (py_in ''candidates'' response_data);
       if \<not> has_candidates then None
       else do {
         candidates \<leftarrow> caught (py_getitem response_data ''candidates'');
         n \<leftarrow> caught (py_len candidates);
         if \<not> n > 0 then None
         else do {
           candidate \<leftarrow> caught (py_first candidates);
           has_content \<leftarrow> caught (py_in ''content'' candidate);
           if \<not> has_content then None
           else do {
             content \<leftarrow> caught (py_getitem candidate ''content'');
             has_parts \<leftarrow> caught (py_in ''parts'' content);
             if \<not> has_parts then None
             else do {
               parts \<leftarrow> caught (py_getitem content ''parts'');
               part \<leftarrow> caught (py_first parts);
               caught (py_getitem part ''text'')
             }
           }
         }
       }
     }"

text \<open>
  Lines 168 to 173: the JSON text inside the answer, possibly wrapped in a Markdown code
  block. When the answer is not a string, \<^verbatim>\<open>in\<close>, \<^verbatim>\<open>split\<close> or \<^verbatim>\<open>json.loads\<close>
  raises, whatever its type: \<open>None\<close>.
\<close>

definition json_text :: "json \<Rightarrow> string option" where
  "json_text llm_response =
     (case llm_response of
        JStr s \<Rightarrow>
          if contains fence_json s then
            do {
              after \<leftarrow> nth_opt (split_on fence_json s) 1;
              body \<leftarrow> nth_opt (split_on fence after) 0;
              Some (py_strip body)
            }
          else if contains fence s then
            do {
              body \<leftarrow> nth_opt (split_on fence s) 1;
              Some (py_strip body)
            }
          else Some s
      | _ \<Rightarrow> None)"

text \<open>Lines 178 to 184: the dictionary stored under \<^verbatim>\<open>'paper'\<close>; a missing key raises
  \<^verbatim>\<open>KeyError\<close> inside the inner \<^verbatim>\<open>try\<close>.\<close>

definition paper_info :: "json \<Rightarrow> json option" where
  "paper_info paper =
     do {
       pubmed_id \<leftarrow> caught (py_getitem paper ''pubmed_id'');
       title \<leftarrow> caught (py_getitem paper ''title'');
       url \<leftarrow> caught (py_getitem paper ''url'');
       journal \<leftarrow> caught (py_getitem paper ''journal'');
       publication_date \<leftarrow> caught (py_getitem paper ''publication_date'');
       Some (JObj [(''pubmed_id'', pubmed_id), (''title'', title), (''url'', url),
                   (''journal'', journal), (''publication_date'', publication_date)])
     }"

text \<open>\<^verbatim>\<open>if k not in analysis: analysis[k] = d\<close>. Assigning to a new key appends it.\<close>

definition set_default :: "string \<Rightarrow> json \<Rightarrow> (string \<times> json) list \<Rightarrow> (string \<times> json) list" where
  "set_default k d kvs = (if k \<in> set (map fst kvs) then kvs else AList.update k d kvs)"

text \<open>Lines 186 to 198, in the order of the source.\<close>

definition fill_defaults :: "(string \<times> json) list \<Rightarrow> (string \<times> json) list" where
  "fill_defaults kvs =
     set_default ''impact_score'' (JInt 0)
       (set_default ''revolutionary_aspects'' JNull
         (set_default ''summary'' (JStr [])
           (set_default ''is_large_trial'' (JBool False)
             (set_default ''aspects'' (JList [])
               (set_default ''is_relevant'' (JBool False) kvs)))))"

text \<open>
  Lines 175 to 200 after \<^verbatim>\<open>analysis = json.loads(json_str)\<close>. The right-hand side of
  the assignment to \<^verbatim>\<open>analysis['paper']\<close> is evaluated first; if it raises, or if
  \<^verbatim>\<open>analysis\<close> is not a dictionary, the exception is caught and \<^verbatim>\<open>analysis\<close> keeps
  the value \<^verbatim>\<open>json.loads\<close> gave.
\<close>

definition annotate :: "json \<Rightarrow> json \<Rightarrow> json" where
  "annotate paper analysis =
     (case analysis of
        JObj kvs \<Rightarrow>
          (case paper_info paper of
             None \<Rightarrow> analysis
           | Some info \<Rightarrow> JObj (fill_defaults (AList.update ''paper'' info kvs)))
      | _ \<Rightarrow> analysis)"

text \<open>
  Lines 153 to 175: what \<^verbatim>\<open>json.loads\<close> returns for the answer, \<open>None\<close> when the
  request did not succeed or an exception or an unexpected format ended the block before.
  \<open>loads\<close> is \<^verbatim>\<open>json.loads\<close>, \<open>None\<close> when it raises.
\<close>

definition loaded_answer :: "(string \<Rightarrow> json option) \<Rightarrow> call_state \<Rightarrow> json option" where
  "loaded_answer loads s =
     (if success s then
        (case response s of
           None \<Rightarrow> None
         | Some (code, body) \<Rightarrow>
             (case body of
                None \<Rightarrow> None
              | Some response_data \<Rightarrow>
                  (case response_text response_data of
                     None \<Rightarrow> None
                   | Some llm_response \<Rightarrow>
                       (case json_text llm_response of
                          None \<Rightarrow> None
                        | Some json_str \<Rightarrow> loads json_str))))
      else None)"

text \<open>Lines 153 to 210: the value of \<^verbatim>\<open>analysis\<close> after the two \<^verbatim>\<open>try\<close> blocks, with
  \<open>JNull\<close> for \<^verbatim>\<open>None\<close>.\<close>

definition parse_response :: "(string \<Rightarrow> json option) \<Rightarrow> json \<Rightarrow> call_state \<Rightarrow> json" where
  "parse_response loads paper s =
     (case loaded_answer loads s of None \<Rightarrow> JNull | Some analysis \<Rightarrow> annotate paper analysis)"

section \<open>analyze\_papers.py: the loop over the papers\<close>

text \<open>\<^verbatim>\<open>x[:50]\<close>: strings and lists can be sliced.\<close>

fun sliceable :: "json \<Rightarrow> bool" where
  "sliceable (JStr s) = True"
| "sliceable (JList xs) = True"
| "sliceable _ = False"

text \<open>Lines 64 to 96: the values interpolated into the prompt. Nothing catches an
  exception here.\<close>

definition build_prompt :: "json \<Rightarrow> py_error + json list" where
  "build_prompt paper =
     (case py_getitem paper ''title'' of
        Inl e \<Rightarrow> Inl e
      | Inr title \<Rightarrow>
          if \<not> sliceable title then Inl TypeError
          else
            (case py_getitem paper ''journal'' of
               Inl e \<Rightarrow> Inl e
             | Inr journal \<Rightarrow>
                 (case py_getitem paper ''publication_date'' of
                    Inl e \<Rightarrow> Inl e
                  | Inr publication_date \<Rightarrow>
                      (case py_getitem paper ''abstract'' of
                         Inl e \<Rightarrow> Inl e
                       | Inr abstract \<Rightarrow> Inr [title, journal, publication_date, abstract]))))"

record loop_state =
  results :: "json list"
  sent :: "(json \<times> attempt) list"

text \<open>One iteration whose prompt could be built: the requests for the paper are logged,
  and the analysis is appended when it is not \<^verbatim>\<open>None\<close>.\<close>

definition process_paper ::
  "(string \<Rightarrow> json option) \<Rightarrow> (nat \<Rightarrow> attempt) \<Rightarrow> json \<Rightarrow> loop_state \<Rightarrow> loop_state" where
  "process_paper loads api paper st =
     (let s = call_gemini api call_start;
          analysis = parse_response loads paper s
      in st\<lparr>results := (if analysis \<noteq> JNull then results st @ [analysis] else results st),
            sent := sent st @ map (Pair paper) (attempts s)\<rparr>)"

text \<open>The \<^verbatim>\<open>for i, paper in enumerate(papers_to_analyze)\<close> loop; \<open>api i\<close> is the oracle
  for the \<open>i\<close>-th paper. An exception ends the loop and the function.\<close>

fun analyze_loop ::
  "(string \<Rightarrow> json option) \<Rightarrow> (nat \<Rightarrow> nat \<Rightarrow> attempt) \<Rightarrow> nat \<Rightarrow> json list \<Rightarrow> loop_state
     \<Rightarrow> loop_state \<times> py_error option" where
  "analyze_loop loads api i [] st = (st, None)"
| "analyze_loop loads api i (paper # rest) st =
     (case build_prompt paper of
        Inl e \<Rightarrow> (st, Some e)
      | Inr prompt \<Rightarrow> analyze_loop loads api (Suc i) rest (process_paper loads (api i) paper st))"

text \<open>Line 45: \<^verbatim>\<open>p['abstract'].strip()\<close> as a truth value.\<close>

definition has_abstract :: "json \<Rightarrow> py_error + bool" where
  "has_abstract p =
     (case py_getitem p ''abstract'' of
        Inl e \<Rightarrow> Inl e
      | Inr (JStr s) \<Rightarrow> Inr (py_strip s \<noteq> [])
      | Inr _ \<Rightarrow> Inl AttributeError)"

fun papers_with_abstracts :: "json list \<Rightarrow> py_error + json list" where
  "papers_with_abstracts [] = Inr []"
| "papers_with_abstracts (p # ps) =
     (case has_abstract p of
        Inl e \<Rightarrow> Inl e
      | Inr keep \<Rightarrow>
          (case papers_with_abstracts ps of
             Inl e \<Rightarrow> Inl e
           | Inr rest \<Rightarrow> Inr (if keep then p # rest else rest)))"

text \<open>\<^verbatim>\<open>xs[:n]\<close>: a negative \<open>n\<close> counts from the end.\<close>

definition slice_to :: "int \<Rightarrow> 'a list \<Rightarrow> 'a list" where
  "slice_to n xs = (if 0 \<le> n then take (nat n) xs else take (length xs - nat (- n)) xs)"

section \<open>analyze\_papers.py: ordering the relevant papers\<close>

text \<open>
  \<^verbatim>\<open>relevant_papers.sort(key=paper_sort_key, reverse=True)\<close> compares the key tuples
  with \<^verbatim>\<open><\<close>. Python compares two tuples (and two lists) at the first position where
  the elements are not \<^verbatim>\<open>==\<close>. \<open>py_cmp a b\<close> is \<open>Some EQ\<close> when \<^verbatim>\<open>a == b\<close>, \<open>Some LT\<close>
  or \<open>Some GT\<close> when they differ and \<^verbatim>\<open>a < b\<close> or \<^verbatim>\<open>b < a\<close>, and \<open>None\<close> when they
  differ and \<^verbatim>\<open><\<close> raises \<^verbatim>\<open>TypeError\<close>: values of different kinds, \<^verbatim>\<open>None\<close>, two
  different dictionaries.

  \<open>canon\<close> picks one value from every class of \<^verbatim>\<open>==\<close>: \<^verbatim>\<open>True\<close> and \<^verbatim>\<open>False\<close> are the
  integers 1 and 0, and a dictionary (its keys are distinct, as \<^verbatim>\<open>json.loads\<close> builds
  it) does not depend on the order of its entries. On these values \<^verbatim>\<open>==\<close> is equality.
\<close>

datatype cmp = LT | EQ | GT

definition cmp_of :: "'a::linorder \<Rightarrow> 'a \<Rightarrow> cmp" where
  "cmp_of a b = (if a < b then LT else if a = b then EQ else GT)"

fun canon :: "json \<Rightarrow> json" where
  "canon JNull = JNull"
| "canon (JBool b) = JInt (if b then 1 else 0)"
| "canon (JInt n) = JInt n"
| "canon (JStr s) = JStr s"
| "canon (JList xs) = JList (map canon xs)"
| "canon (JObj kvs) = JObj (sort_key fst (map (\<lambda>kv. (fst kv, canon (snd kv))) kvs))"

fun cmp_c :: "json \<Rightarrow> json \<Rightarrow> cmp option"
  and cmp_list :: "json list \<Rightarrow> json list \<Rightarrow> cmp option" where
  "cmp_c JNull b = (case b of JNull \<Rightarrow> Some EQ | _ \<Rightarrow> None)"
| "cmp_c (JBool x) b = (case b of JBool y \<Rightarrow> Some (cmp_of x y) | _ \<Rightarrow> None)"
| "cmp_c (JInt x) b = (case b of JInt y \<Rightarrow> Some (cmp_of x y) | _ \<Rightarrow> None)"
| "cmp_c (JStr s) b = (case b of JStr t \<Rightarrow> Some (cmp_of s t) | _ \<Rightarrow> None)"
| "cmp_c (JList xs) b = (case b of JList ys \<Rightarrow> cmp_list xs ys | _ \<Rightarrow> None)"
| "cmp_c (JObj kvs) b = (if b = JObj kvs then Some EQ else None)"
| "cmp_list [] ys = (if ys = [] then Some EQ else Some LT)"
| "cmp_list (x # xs) ys =
     (case ys of
        [] \<Rightarrow> Some GT
      | y # ys' \<Rightarrow> if x = y then cmp_list xs ys' else cmp_c x y)"

definition py_cmp :: "json \<Rightarrow> json \<Rightarrow> cmp option" where
  "py_cmp a b = cmp_c (canon a) (canon b)"

type_synonym sort_key = "json \<times> nat \<times> nat"

fun key_cmp :: "sort_key \<Rightarrow> sort_key \<Rightarrow> cmp option" where
  "key_cmp (v1, r1) (v2, r2) =
     (case py_cmp v1 v2 of
        None \<Rightarrow> None
      | Some EQ \<Rightarrow> Some (cmp_of r1 r2)
      | Some c \<Rightarrow> Some c)"

text \<open>Lines 231 to 235. The list holds dictionaries only when the sort is reached; on
  anything else \<^verbatim>\<open>get\<close> raises.\<close>

definition paper_sort_key :: "json \<Rightarrow> py_error + sort_key" where
  "paper_sort_key paper =
     (case py_get paper ''impact_score'' (JInt 0) of
        Inl e \<Rightarrow> Inl e
      | Inr impact_score \<Rightarrow>
          (case py_get paper ''revolutionary_aspects'' JNull of
             Inl e \<Rightarrow> Inl e
           | Inr revolutionary \<Rightarrow>
               (case py_get paper ''is_large_trial'' (JBool False) of
                  Inl e \<Rightarrow> Inl e
                | Inr large \<Rightarrow>
                    Inr (impact_score,
                         if truthy revolutionary then 1 else 0,
                         if truthy large then 1 else 0))))"

fun sort_keys :: "json list \<Rightarrow> py_error + (sort_key \<times> json) list" where
  "sort_keys [] = Inr []"
| "sort_keys (p # ps) =
     (case paper_sort_key p of
        Inl e \<Rightarrow> Inl e
      | Inr k \<Rightarrow> (case sort_keys ps of Inl e \<Rightarrow> Inl e | Inr ks \<Rightarrow> Inr ((k, p) # ks)))"

text \<open>
  The sort is stable and, with \<^verbatim>\<open>reverse=True\<close>, descending: an element goes after the
  elements with a greater key and before the earlier-placed ones with an equal or smaller
  key. Python raises \<^verbatim>\<open>TypeError\<close> when two keys it compares cannot be ordered; which
  pairs its merge sort compares is not modelled, the model raises when some two keys of
  the list cannot be ordered.
\<close>

fun insert_desc :: "sort_key \<times> 'a \<Rightarrow> (sort_key \<times> 'a) list \<Rightarrow> (sort_key \<times> 'a) list" where
  "insert_desc x [] = [x]"
| "insert_desc x (y # ys) =
     (if key_cmp (fst x) (fst y) = Some LT then y # insert_desc x ys else x # y # ys)"

definition sort_desc :: "(sort_key \<times> 'a) list \<Rightarrow> (sort_key \<times> 'a) list" where
  "sort_desc xs = foldr insert_desc xs []"

fun comparable_all :: "sort_key list \<Rightarrow> bool" where
  "comparable_all [] = True"
| "comparable_all (k # ks) = (list_all (\<lambda>k'. key_cmp k k' \<noteq> None) ks \<and> comparable_all ks)"

definition py_sort_reverse :: "json list \<Rightarrow> py_error + json list" where
  "py_sort_reverse ps =
     (case sort_keys ps of
        Inl e \<Rightarrow> Inl e
      | Inr ks \<Rightarrow>
          if comparable_all (map fst ks) then Inr (map snd (sort_desc ks)) else Inl TypeError)"

section \<open>analyze\_papers.py: the Markdown report and the console summary\<close>

text \<open>
  What is written to the report file, as the sequence of pieces the \<^verbatim>\<open>f.write\<close> calls
  produce: literal text, the running number of an entry, and a value interpolated into
  an f-string (its rendering by \<^verbatim>\<open>str\<close> is not modelled).
\<close>

datatype chunk = Lit string | Num nat | Val json

fun join_chunks :: "chunk list \<Rightarrow> chunk list list \<Rightarrow> chunk list" where
  "join_chunks sep [] = []"
| "join_chunks sep [x] = x"
| "join_chunks sep (x # y # ys) = x @ sep @ join_chunks sep (y # ys)"

text \<open>\<^verbatim>\<open>paper['paper'][k]\<close>.\<close>

definition paper_field :: "json \<Rightarrow> string \<Rightarrow> py_error + json" where
  "paper_field paper k =
     (case py_getitem paper ''paper'' of Inl e \<Rightarrow> Inl e | Inr info \<Rightarrow> py_getitem info k)"

text \<open>\<^verbatim>\<open>paper.get('aspects', [])\<close> iterated.\<close>

definition aspects_of :: "json \<Rightarrow> py_error + json list" where
  "aspects_of paper =
     (case py_get paper ''aspects'' (JList []) of Inl e \<Rightarrow> Inl e | Inr a \<Rightarrow> py_iter a)"

text \<open>Lines 249 to 251: one line of the table of contents.\<close>

definition toc_line :: "nat \<Rightarrow> json \<Rightarrow> py_error + chunk list" where
  "toc_line i paper =
     (case paper_field paper ''title'' of
        Inl e \<Rightarrow> Inl e
      | Inr title \<Rightarrow>
          (case aspects_of paper of
             Inl e \<Rightarrow> Inl e
           | Inr aspects \<Rightarrow>
               Inr ([Num i, Lit ''. ['', Val title, Lit ''](#'', Num i, Lit '') '']
                    @ join_chunks [Lit '', ''] (map (\<lambda>a. [Lit ''['', Val a, Lit '']'']) aspects)
                    @ [Lit ''\<newline>''])))"

text \<open>Lines 257 to 267: the values of one detailed entry, all read before the first
  \<^verbatim>\<open>f.write\<close> of the entry.\<close>

record entry =
  title_of :: json
  journal_of :: json
  pub_date_of :: json
  url_of :: json
  aspects_list :: "json list"
  impact_score_of :: json
  is_large_trial_of :: string
  summary_of :: json
  revolutionary_of :: json

definition read_entry :: "json \<Rightarrow> py_error + entry" where
  "read_entry paper =
     (case paper_field paper ''title'' of Inl e \<Rightarrow> Inl e | Inr title \<Rightarrow>
     (case paper_field paper ''journal'' of Inl e \<Rightarrow> Inl e | Inr journal \<Rightarrow>
     (case paper_field paper ''publication_date'' of Inl e \<Rightarrow> Inl e | Inr pub_date \<Rightarrow>
     (case paper_field paper ''url'' of Inl e \<Rightarrow> Inl e | Inr url \<Rightarrow>
     (case aspects_of paper of Inl e \<Rightarrow> Inl e | Inr aspects \<Rightarrow>
     (case py_get paper ''impact_score'' (JInt 0) of Inl e \<Rightarrow> Inl e | Inr impact_score \<Rightarrow>
     (case py_get paper ''is_large_trial'' (JBool False) of Inl e \<Rightarrow> Inl e | Inr large \<Rightarrow>
     (case py_get paper ''summary'' (JStr []) of Inl e \<Rightarrow> Inl e | Inr summary \<Rightarrow>
     (case py_get paper ''revolutionary_aspects'' (JStr []) of Inl e \<Rightarrow> Inl e | Inr revolutionary \<Rightarrow>
        Inr \<lparr>title_of = title, journal_of = journal, pub_date_of = pub_date, url_of = url,
             aspects_list = aspects, impact_score_of = impact_score,
             is_large_trial_of = (if truthy large then ''Yes'' else ''No''),
             summary_of = summary, revolutionary_of = revolutionary\<rparr>)))))))))"

text \<open>Lines 263 and 269 to 280: what the entry writes.\<close>

definition entry_chunks :: "nat \<Rightarrow> entry \<Rightarrow> chunk list" where
  "entry_chunks i v =
     [Lit (''<a id='' @ [CHR 0x27]), Num i, Lit (CHR 0x27 # ''></a>\<newline>''),
      Lit ''### '', Num i, Lit ''. '', Val (title_of v), Lit ''\<newline>\<newline>'']
     @ join_chunks [Lit '' '']
         (map (\<lambda>a. [Lit ''!['', Val a, Lit ''](https://img.shields.io/badge/-'', Val a,
                     Lit ''-blue)'']) (aspects_list v))
     @ [Lit ''\<newline>\<newline>'',
        Lit ''**Journal:** '', Val (journal_of v), Lit ''  \<newline>'',
        Lit ''**Publication Date:** '', Val (pub_date_of v), Lit ''  \<newline>'',
        Lit ''**Impact Score:** '', Val (impact_score_of v), Lit ''/10  \<newline>'',
        Lit ''**Large Trial/RCT:** '', Lit (is_large_trial_of v), Lit ''  \<newline>\<newline>'',
        Lit ''**Summary:**  \<newline>'', Val (summary_of v), Lit ''\<newline>\<newline>'']
     @ (if truthy (revolutionary_of v)
        then [Lit ''**Revolutionary Aspects:**  \<newline>'', Val (revolutionary_of v),
              Lit ''\<newline>\<newline>'']
        else [])
     @ [Lit ''[View on PubMed]('', Val (url_of v), Lit '')\<newline>\<newline>'',
        Lit ''---\<newline>\<newline>'']"

definition detail_entry :: "nat \<Rightarrow> json \<Rightarrow> py_error + chunk list" where
  "detail_entry i paper =
     (case read_entry paper of Inl e \<Rightarrow> Inl e | Inr v \<Rightarrow> Inr (entry_chunks i v))"

text \<open>A loop of writes over \<^verbatim>\<open>enumerate(papers, i)\<close>: an exception ends it, and what was
  written before stays in the file.\<close>

fun write_each ::
  "(nat \<Rightarrow> json \<Rightarrow> py_error + chunk list) \<Rightarrow> nat \<Rightarrow> json list \<Rightarrow> chunk list \<times> py_error option" where
  "write_each f i [] = ([], None)"
| "write_each f i (p # ps) =
     (case f i p of
        Inl e \<Rightarrow> ([], Some e)
      | Inr cs \<Rightarrow> (case write_each f (Suc i) ps of (rest, err) \<Rightarrow> (cs @ rest, err)))"

definition report_header :: "string \<Rightarrow> chunk list" where
  "report_header today =
     [Lit ''# Top Papers Relevant to 4P Medicine\<newline>\<newline>'',
      Lit ''*Generated on: '', Lit today, Lit ''*\<newline>\<newline>'',
      Lit ''This report highlights the most impactful, revolutionary, and exciting papers related to 4P Medicine (Predictive, Preventive, Personalized, and Participatory).\<newline>\<newline>'',
      Lit ''## Table of Contents\<newline>\<newline>'']"

text \<open>Lines 241 to 280, for the list \<^verbatim>\<open>relevant_papers[:20]\<close>.\<close>

definition write_markdown :: "string \<Rightarrow> json list \<Rightarrow> chunk list \<times> py_error option" where
  "write_markdown today listed =
     (case write_each toc_line 1 listed of
        (toc, Some e) \<Rightarrow> (report_header today @ toc, Some e)
      | (toc, None) \<Rightarrow>
          (case write_each detail_entry 1 listed of
             (entries, err) \<Rightarrow>
               (report_header today @ toc
                  @ [Lit ''\<newline>'', Lit ''## Detailed Paper Reviews\<newline>\<newline>''] @ entries,
                err)))"

text \<open>Lines 286 to 293: the console summary of one paper; only its exceptions matter.\<close>

definition print_paper :: "json \<Rightarrow> py_error option" where
  "print_paper paper =
     (case paper_field paper ''title'' of Inl e \<Rightarrow> Some e | Inr title \<Rightarrow>
     (case py_get paper ''impact_score'' (JStr ''N/A'') of Inl e \<Rightarrow> Some e | Inr impact_score \<Rightarrow>
     (case py_get paper ''aspects'' (JList []) of Inl e \<Rightarrow> Some e | Inr aspects \<Rightarrow>
     (case py_join '', '' aspects of Inl e \<Rightarrow> Some e | Inr joined \<Rightarrow>
     (case paper_field paper ''url'' of Inl e \<Rightarrow> Some e | Inr url \<Rightarrow> None)))))"

fun print_top :: "json list \<Rightarrow> py_error option" where
  "print_top [] = None"
| "print_top (p # ps) = (case print_paper p of Some e \<Rightarrow> Some e | None \<Rightarrow> print_top ps)"

text \<open>Line 222: \<^verbatim>\<open>[p for p in results if p.get('is_relevant', False)]\<close>.\<close>

fun relevant_papers :: "json list \<Rightarrow> py_error + json list" where
  "relevant_papers [] = Inr []"
| "relevant_papers (p # ps) =
     (case py_get p ''is_relevant'' (JBool False) of
        Inl e \<Rightarrow> Inl e
      | Inr r \<Rightarrow>
          (case relevant_papers ps of
             Inl e \<Rightarrow> Inl e
           | Inr rest \<Rightarrow> Inr (if truthy r then p # rest else rest)))"

text \<open>Lines 222 to 293: the report file (\<open>None\<close> when it is not opened) and the exception
  that ends the function, if any.\<close>

definition make_report :: "string \<Rightarrow> json list \<Rightarrow> chunk list option \<times> py_error option" where
  "make_report today rs =
     (case relevant_papers rs of
        Inl e \<Rightarrow> (None, Some e)
      | Inr relevant \<Rightarrow>
          if relevant = [] then (None, None)
          else
            (case py_sort_reverse relevant of
               Inl e \<Rightarrow> (None, Some e)
             | Inr ranked \<Rightarrow>
                 (case write_markdown today (take 20 ranked) of
                    (md, Some e) \<Rightarrow> (Some md, Some e)
                  | (md, None) \<Rightarrow> (Some md, print_top (take 5 ranked)))))"

section \<open>analyze\_papers.py: the whole function\<close>

text \<open>
  What a run leaves behind: the requests sent (the paper and the outcome of each), the
  results file and the report file when they were written, and the value returned or
  the exception raised.
\<close>

record run =
  requests :: "(json \<times> attempt) list"
  json_file :: "json list option"
  markdown :: "chunk list option"
  outcome :: "py_error + json list"

text \<open>
  \<open>papers\<close> is what \<^verbatim>\<open>json.load\<close> read from the input file. A value that is true but not
  a list fails at \<^verbatim>\<open>len\<close> or at \<^verbatim>\<open>p['abstract']\<close> with \<^verbatim>\<open>TypeError\<close>.
\<close>

definition analyze_papers_with_gemini ::
  "(string \<Rightarrow> json option) \<Rightarrow> (nat \<Rightarrow> nat \<Rightarrow> attempt) \<Rightarrow> string \<Rightarrow> json \<Rightarrow> int option \<Rightarrow> run" where
  "analyze_papers_with_gemini loads api today papers max_papers =
     (if \<not> truthy papers then
        \<lparr>requests = [], json_file = None, markdown = None, outcome = Inr []\<rparr>
      else
        (case papers of
           JList ps \<Rightarrow>
             (case papers_with_abstracts ps of
                Inl e \<Rightarrow> \<lparr>requests = [], json_file = None, markdown = None, outcome = Inl e\<rparr>
              | Inr with_abstracts \<Rightarrow>
                  if with_abstracts = [] then
                    \<lparr>requests = [], json_file = None, markdown = None, outcome = Inr []\<rparr>
                  else
                    (let papers_to_analyze =
                           (case max_papers of
                              None \<Rightarrow> with_abstracts
                            | Some n \<Rightarrow> slice_to n with_abstracts)
                     in case analyze_loop loads api 0 papers_to_analyze \<lparr>results = [], sent = []\<rparr> of
                          (st, Some e) \<Rightarrow>
                            \<lparr>requests = sent st, json_file = None, markdown = None, outcome = Inl e\<rparr>
                        | (st, None) \<Rightarrow>
                            (case make_report today (results st) of
                               (md, Some e) \<Rightarrow>
                                 \<lparr>requests = sent st, json_file = Some (results st), markdown = md,
                                  outcome = Inl e\<rparr>
                             | (md, None) \<Rightarrow>
                                 \<lparr>requests = sent st, json_file = Some (results st), markdown = md,
                                  outcome = Inr (results st)\<rparr>)))
         | _ \<Rightarrow> \<lparr>requests = [], json_file = None, markdown = None, outcome = Inl TypeError\<rparr>))"

text \<open>Two oracles used as concrete inputs below: a server error followed by a good
  response, and a service that always times out.\<close>

definition error_then_ok :: "nat \<Rightarrow> attempt" where
  "error_then_ok k = (if k = 0 then Response 500 None else Response 200 (Some JNull))"

definition always_timeout :: "nat \<Rightarrow> attempt" where
  "always_timeout k = Timeout"

section \<open>convert\_to\_csv.py\<close>


text \<open>
  Lines 38 to 47: the row handed to \<^verbatim>\<open>writer.writerow\<close>, evaluated left to right. A cell
  is the Python value in that place; how \<^verbatim>\<open>csv.writer\<close> quotes it is not modelled.
\<close>

definition csv_row :: "json \<Rightarrow> py_error + json list" where
  "csv_row paper =
     (case py_get paper ''pubmed_id'' (JStr []) of Inl e \<Rightarrow> Inl e | Inr pubmed_id \<Rightarrow>
     (case py_get paper ''title'' (JStr []) of Inl e \<Rightarrow> Inl e | Inr title \<Rightarrow>
     (case py_get paper ''journal'' (JStr []) of Inl e \<Rightarrow> Inl e | Inr journal \<Rightarrow>
     (case py_get paper ''publication_date'' (JStr []) of Inl e \<Rightarrow> Inl e | Inr publication_date \<Rightarrow>
     (case py_get paper ''url'' (JStr []) of Inl e \<Rightarrow> Inl e | Inr url \<Rightarrow>
     (case py_get paper ''authors'' (JList []) of Inl e \<Rightarrow> Inl e | Inr authors \<Rightarrow>
     (case py_join ''; '' authors of Inl e \<Rightarrow> Inl e | Inr authors_cell \<Rightarrow>
     (case py_get paper ''abstract'' (JStr []) of Inl e \<Rightarrow> Inl e | Inr abstract \<Rightarrow>
     (case py_get paper ''publication_types'' (JList []) of Inl e \<Rightarrow> Inl e | Inr types \<Rightarrow>
     (case py_join ''; '' types of Inl e \<Rightarrow> Inl e | Inr types_cell \<Rightarrow>
        Inr [pubmed_id, title, journal, publication_date, url, JStr authors_cell, abstract,
             JStr types_cell]))))))))))"

text \<open>The \<^verbatim>\<open>for paper in papers\<close> loop: an exception ends it, the rows written before
  stay in the file.\<close>

fun write_rows :: "json list \<Rightarrow> json list list \<times> py_error option" where
  "write_rows [] = ([], None)"
| "write_rows (p # ps) =
     (case csv_row p of
        Inl e \<Rightarrow> ([], Some e)
      | Inr row \<Rightarrow> (case write_rows ps of (rows, err) \<Rightarrow> (row # rows, err)))"


section \<open>search\_medical\_papers.py\<close>

text \<open>
  An element of \<^verbatim>\<open>xml.etree.ElementTree\<close>: its tag, its attributes, its text (\<^verbatim>\<open>None\<close>
  when the element has no text before its first child) and its children.
\<close>

datatype xml = Elem string "(string \<times> string) list" "string option" "xml list"

fun tag_of :: "xml \<Rightarrow> string" where
  "tag_of (Elem t a x cs) = t"

fun text_of :: "xml \<Rightarrow> string option" where
  "text_of (Elem t a x cs) = x"

fun attrib_of :: "xml \<Rightarrow> (string \<times> string) list" where
  "attrib_of (Elem t a x cs) = a"

fun children_of :: "xml \<Rightarrow> xml list" where
  "children_of (Elem t a x cs) = cs"

text \<open>\<^verbatim>\<open>e.findall('./a/b')\<close> and \<^verbatim>\<open>e.find('./a/b')\<close>, the path given as the list of its
  tags: the matches in document order, and the first of them.\<close>

fun findall_path :: "string list \<Rightarrow> xml \<Rightarrow> xml list" where
  "findall_path [] e = [e]"
| "findall_path (t # ts) e =
     concat (map (findall_path ts) (filter (\<lambda>c. tag_of c = t) (children_of e)))"

definition find_path :: "string list \<Rightarrow> xml \<Rightarrow> xml option" where
  "find_path ts e = (case findall_path ts e of [] \<Rightarrow> None | x # xs \<Rightarrow> Some x)"

text \<open>\<^verbatim>\<open>root.findall('.//tag')\<close>: the descendants with that tag, in document order.\<close>

fun descendants :: "xml \<Rightarrow> xml list" where
  "descendants (Elem t a x cs) = concat (map (\<lambda>c. c # descendants c) cs)"

definition findall_deep :: "string \<Rightarrow> xml \<Rightarrow> xml list" where
  "findall_deep t root = filter (\<lambda>e. tag_of e = t) (descendants root)"

text \<open>\<^verbatim>\<open>elem.text if elem is not None else ''\<close>: a string, or \<^verbatim>\<open>None\<close> when the element is
  there and has no text. \<open>to_json\<close> is the JSON value of such a result and \<open>fstr\<close> its
  rendering inside an f-string.\<close>

definition elem_text :: "xml option \<Rightarrow> string option" where
  "elem_text elem = (case elem of None \<Rightarrow> Some [] | Some e \<Rightarrow> text_of e)"

definition to_json :: "string option \<Rightarrow> json" where
  "to_json t = (case t of None \<Rightarrow> JNull | Some s \<Rightarrow> JStr s)"

definition fstr :: "string option \<Rightarrow> string" where
  "fstr t = (case t of None \<Rightarrow> ''None'' | Some s \<Rightarrow> s)"

text \<open>Lines 146 to 153: one part of the abstract.\<close>

definition abstract_part :: "xml \<Rightarrow> string" where
  "abstract_part abstract_text =
     (let label = map_of (attrib_of abstract_text) ''Label'';
          txt = (case text_of abstract_text of None \<Rightarrow> [] | Some s \<Rightarrow> s)
      in case label of
           None \<Rightarrow> txt
         | Some l \<Rightarrow> if l \<noteq> [] then l @ '': '' @ txt else txt)"

text \<open>Lines 94 to 167: the dictionary built for one \<^verbatim>\<open>PubmedArticle\<close> element, \<open>None\<close>
  when the loop moves on without one. Nothing in the body can raise.\<close>

definition article_record :: "xml \<Rightarrow> json option" where
  "article_record article =
     (case find_path [''MedlineCitation''] article of
        None \<Rightarrow> None
      | Some medline_citation \<Rightarrow>
          (case find_path [''Article''] medline_citation of
             None \<Rightarrow> None
           | Some article_data \<Rightarrow>
               (let pmid = elem_text (find_path [''PMID''] medline_citation);
                    title = elem_text (find_path [''ArticleTitle''] article_data);
                    journal = elem_text (find_path [''Journal'', ''Title''] article_data);
                    publication_date =
                      (case find_path [''Journal'', ''JournalIssue'', ''PubDate''] article_data of
                         None \<Rightarrow> []
                       | Some pub_date \<Rightarrow>
                           py_strip (fstr (elem_text (find_path [''Year''] pub_date)) @ '' ''
                                     @ fstr (elem_text (find_path [''Month''] pub_date)) @ '' ''
                                     @ fstr (elem_text (find_path [''Day''] pub_date))));
                    abstract =
                      (case find_path [''Abstract''] article_data of
                         None \<Rightarrow> []
                       | Some abstract_elem \<Rightarrow>
                           join_str '' '' (map abstract_part
                                             (findall_path [''AbstractText''] abstract_elem)));
                    pub_types =
                      (case find_path [''PublicationTypeList''] article_data of
                         None \<Rightarrow> []
                       | Some pub_type_list \<Rightarrow>
                           map (\<lambda>pub_type. to_json (text_of pub_type))
                             (findall_path [''PublicationType''] pub_type_list))
                in Some (JObj [(''pubmed_id'', to_json pmid),
                               (''title'', to_json title),
                               (''journal'', to_json journal),
                               (''publication_date'', JStr publication_date),
                               (''abstract'', JStr abstract),
                               (''url'', JStr (''https://pubmed.ncbi.nlm.nih.gov/'' @ fstr pmid @ ''/'')),
                               (''publication_types'', JList pub_types)]))))"

text \<open>
  The outside world of one call: what \<^verbatim>\<open>search_response.json()\<close> gives for the search
  request, the text of the fetch response (either request may raise), and
  \<^verbatim>\<open>ET.fromstring\<close>, \<open>None\<close> when it raises \<^verbatim>\<open>ParseError\<close>. The query string only
  travels to the server and is not modelled.
\<close>

record pubmed =
  esearch :: "py_error + json"
  efetch :: "py_error + string"
  fromstring :: "string \<Rightarrow> xml option"

datatype fetched = ReturnedEmpty | Parsed "json list"

text \<open>Lines 46 to 170, up to the save step: the debugging copy of the XML when it was
  written, and either an exception, an early \<^verbatim>\<open>return []\<close>, or the list \<^verbatim>\<open>papers\<close>.\<close>

definition fetch_papers :: "pubmed \<Rightarrow> string option \<times> (py_error + fetched)" where
  "fetch_papers env =
     (case esearch env of
        Inl e \<Rightarrow> (None, Inl e)
      | Inr search_data \<Rightarrow>
          (case py_getitem search_data ''esearchresult'' of
             Inl e \<Rightarrow> (None, Inl e)
           | Inr result \<Rightarrow>
               (case py_getitem result ''idlist'' of
                  Inl e \<Rightarrow> (None, Inl e)
                | Inr id_list \<Rightarrow>
                    if \<not> truthy id_list then (None, Inr ReturnedEmpty)
                    else
                      (case py_len id_list of
                         Inl e \<Rightarrow> (None, Inl e)
                       | Inr n \<Rightarrow>
                           (case py_join '','' id_list of
                              Inl e \<Rightarrow> (None, Inl e)
                            | Inr ids \<Rightarrow>
                                (case efetch env of
                                   Inl e \<Rightarrow> (None, Inl e)
                                 | Inr fetched_text \<Rightarrow>
                                     if py_strip fetched_text = [] then
                                       (Some fetched_text, Inr ReturnedEmpty)
                                     else
                                       (case fromstring env fetched_text of
                                          None \<Rightarrow> (Some fetched_text, Inr ReturnedEmpty)
                                        | Some root \<Rightarrow>
                                            (Some fetched_text,
                                             Inr (Parsed
                                                    (List.map_filter article_record
                                                       (findall_deep ''PubmedArticle'' root)))))))))))"

text \<open>Decimal digits of a number, lower case and \<^verbatim>\<open>isalnum\<close> on ASCII characters.\<close>

fun decimal :: "nat \<Rightarrow> string" where
  "decimal n =
     (if n < 10 then [char_of (48 + n)] else decimal (n div 10) @ [char_of (48 + n mod 10)])"

definition lower_char :: "char \<Rightarrow> char" where
  "lower_char c =
     (let n = (of_char c :: nat) in if 65 \<le> n \<and> n \<le> 90 then char_of (n + 32) else c)"

definition is_alnum :: "char \<Rightarrow> bool" where
  "is_alnum c =
     (let n = (of_char c :: nat)
      in (48 \<le> n \<and> n \<le> 57) \<or> (65 \<le> n \<and> n \<le> 90) \<or> (97 \<le> n \<and> n \<le> 122))"

text \<open>
  Lines 172 to 188: the name of the JSON file. \<open>group_name\<close> is the module's global of
  that name: \<open>None\<close> when it is not defined, as it is unless the module runs as
  \<^verbatim>\<open>__main__\<close>. \<open>stamp\<close> is today's date as \<^verbatim>\<open>%Y%m%d\<close>.
\<close>

definition papers_filename :: "string option \<Rightarrow> string \<Rightarrow> string list \<Rightarrow> py_error + string" where
  "papers_filename group_name stamp journals =
     (case group_name of
        None \<Rightarrow> Inl NameError
      | Some g \<Rightarrow>
          if g \<noteq> ''custom'' then Inr (''medical_papers_'' @ g @ ''_'' @ stamp @ ''.json'')
          else if length journals = 1 then
            Inr (''medical_papers_''
                 @ filter (\<lambda>c. is_alnum c \<or> c = CHR ''_'')
                     (map lower_char (map (\<lambda>c. if c = CHR '' '' then CHR ''_'' else c) (hd journals)))
                 @ ''_'' @ stamp @ ''.json'')
          else
            Inr (''medical_papers_custom_'' @ decimal (length journals) @ ''_journals_'' @ stamp
                 @ ''.json''))"

record search_run =
  xml_file :: "string option"
  papers_file :: "(string \<times> json list) option"
  returned :: "py_error + json list"

definition default_journals :: "string list" where
  "default_journals = [''Lancet'', ''The New England journal of medicine'']"

text \<open>The whole function. \<open>journals\<close> is the argument of that name, \<open>None\<close> for the
  default.\<close>

definition search_medical_papers ::
  "pubmed \<Rightarrow> string option \<Rightarrow> string \<Rightarrow> string list option \<Rightarrow> search_run" where
  "search_medical_papers env group_name stamp journals =
     (case fetch_papers env of
        (saved_xml, Inl e) \<Rightarrow> \<lparr>xml_file = saved_xml, papers_file = None, returned = Inl e\<rparr>
      | (saved_xml, Inr ReturnedEmpty) \<Rightarrow>
          \<lparr>xml_file = saved_xml, papers_file = None, returned = Inr []\<rparr>
      | (saved_xml, Inr (Parsed papers)) \<Rightarrow>
          (case papers_filename group_name stamp
                  (case journals of None \<Rightarrow> default_journals | Some js \<Rightarrow> js) of
             Inl e \<Rightarrow> \<lparr>xml_file = saved_xml, papers_file = None, returned = Inl e\<rparr>
           | Inr filename \<Rightarrow>
               \<lparr>xml_file = saved_xml, papers_file = Some (filename, papers),
                returned = Inr papers\<rparr>))"

section \<open>analyze\_papers.py on a store of objects\<close>

text \<open>
  To see which object a statement changes, the values that \<^verbatim>\<open>json.loads\<close> creates are
  put in a store, a list indexed by address, and the lists \<^verbatim>\<open>results\<close> and
  \<^verbatim>\<open>relevant_papers\<close> hold addresses: both lists refer to the same dictionaries, and
  \<^verbatim>\<open>sort\<close> reorders \<^verbatim>\<open>relevant_papers\<close> in place.
\<close>

record store =
  objects :: "json list"
  results_at :: "nat list"
  relevant_at :: "nat list"

text \<open>\<^verbatim>\<open>analysis[k] = v\<close> and \<^verbatim>\<open>if k not in analysis: analysis[k] = d\<close>, for the object
  at address \<open>a\<close>.\<close>

definition assign_key :: "nat \<Rightarrow> string \<Rightarrow> json \<Rightarrow> json list \<Rightarrow> json list" where
  "assign_key a k v h =
     (if a < length h then
        (case h ! a of JObj kvs \<Rightarrow> h[a := JObj (AList.update k v kvs)] | _ \<Rightarrow> h)
      else h)"

definition default_key :: "nat \<Rightarrow> string \<Rightarrow> json \<Rightarrow> json list \<Rightarrow> json list" where
  "default_key a k d h =
     (if a < length h then
        (case h ! a of
           JObj kvs \<Rightarrow> if k \<in> set (map fst kvs) then h else assign_key a k d h
         | _ \<Rightarrow> h)
      else h)"

text \<open>Lines 177 to 198 on the object at address \<open>a\<close>.\<close>

definition annotate_at :: "nat \<Rightarrow> json \<Rightarrow> json list \<Rightarrow> json list" where
  "annotate_at a paper h =
     (if a < length h then
        (case h ! a of
           JObj kvs \<Rightarrow>
             (case paper_info paper of
                None \<Rightarrow> h
              | Some info \<Rightarrow>
                  default_key a ''impact_score'' (JInt 0)
                    (default_key a ''revolutionary_aspects'' JNull
                      (default_key a ''summary'' (JStr [])
                        (default_key a ''is_large_trial'' (JBool False)
                          (default_key a ''aspects'' (JList [])
                            (default_key a ''is_relevant'' (JBool False)
                              (assign_key a ''paper'' info h)))))))
         | _ \<Rightarrow> h)
      else h)"

text \<open>One iteration: the value of \<^verbatim>\<open>json.loads\<close> is a new object, it is changed in place,
  and its address is appended to \<^verbatim>\<open>results\<close> unless it is \<^verbatim>\<open>None\<close>.\<close>

definition process_paper_at ::
  "(string \<Rightarrow> json option) \<Rightarrow> (nat \<Rightarrow> attempt) \<Rightarrow> json \<Rightarrow> store \<Rightarrow> store" where
  "process_paper_at loads api paper st =
     (case loaded_answer loads (call_gemini api call_start) of
        None \<Rightarrow> st
      | Some analysis \<Rightarrow>
          (let a = length (objects st);
               h = annotate_at a paper (objects st @ [analysis])
           in st\<lparr>objects := h,
                 results_at := (if h ! a \<noteq> JNull then results_at st @ [a] else results_at st)\<rparr>))"

fun analyze_loop_at ::
  "(string \<Rightarrow> json option) \<Rightarrow> (nat \<Rightarrow> nat \<Rightarrow> attempt) \<Rightarrow> nat \<Rightarrow> json list \<Rightarrow> store
     \<Rightarrow> store \<times> py_error option" where
  "analyze_loop_at loads api i [] st = (st, None)"
| "analyze_loop_at loads api i (paper # rest) st =
     (case build_prompt paper of
        Inl e \<Rightarrow> (st, Some e)
      | Inr prompt \<Rightarrow>
          analyze_loop_at loads api (Suc i) rest (process_paper_at loads (api i) paper st))"

text \<open>Line 222 and lines 231 to 237 on addresses: the new list \<^verbatim>\<open>relevant_papers\<close> and
  its sort. Both only read the objects.\<close>

fun relevant_refs :: "json list \<Rightarrow> nat list \<Rightarrow> py_error + nat list" where
  "relevant_refs h [] = Inr []"
| "relevant_refs h (a # as) =
     (case py_get (h ! a) ''is_relevant'' (JBool False) of
        Inl e \<Rightarrow> Inl e
      | Inr r \<Rightarrow>
          (case relevant_refs h as of
             Inl e \<Rightarrow> Inl e
           | Inr rest \<Rightarrow> Inr (if truthy r then a # rest else rest)))"

fun ref_keys :: "json list \<Rightarrow> nat list \<Rightarrow> py_error + (sort_key \<times> nat) list" where
  "ref_keys h [] = Inr []"
| "ref_keys h (a # as) =
     (case paper_sort_key (h ! a) of
        Inl e \<Rightarrow> Inl e
      | Inr k \<Rightarrow> (case ref_keys h as of Inl e \<Rightarrow> Inl e | Inr ks \<Rightarrow> Inr ((k, a) # ks)))"

definition sort_refs :: "json list \<Rightarrow> nat list \<Rightarrow> py_error + nat list" where
  "sort_refs h refs =
     (case ref_keys h refs of
        Inl e \<Rightarrow> Inl e
      | Inr ks \<Rightarrow>
          if comparable_all (map fst ks) then Inr (map snd (sort_desc ks)) else Inl TypeError)"

text \<open>Lines 222 to 293 on the store: the state afterwards, the report file and the
  exception, if any. Only \<^verbatim>\<open>relevant_papers\<close> is assigned to.\<close>

definition finish_at :: "string \<Rightarrow> store \<Rightarrow> store \<times> chunk list option \<times> py_error option" where
  "finish_at today st =
     (case relevant_refs (objects st) (results_at st) of
        Inl e \<Rightarrow> (st, None, Some e)
      | Inr relevant \<Rightarrow>
          if relevant = [] then (st\<lparr>relevant_at := []\<rparr>, None, None)
          else
            (case sort_refs (objects st) relevant of
               Inl e \<Rightarrow> (st\<lparr>relevant_at := relevant\<rparr>, None, Some e)
             | Inr ranked \<Rightarrow>
                 (case write_markdown today (map (nth (objects st)) (take 20 ranked)) of
                    (md, Some e) \<Rightarrow> (st\<lparr>relevant_at := ranked\<rparr>, Some md, Some e)
                  | (md, None) \<Rightarrow>
                      (st\<lparr>relevant_at := ranked\<rparr>, Some md,
                       print_top (map (nth (objects st)) (take 5 ranked))))))"

text \<open>convert\_to\_csv.py on the store: the rows are built from what the paper objects at
  the given addresses hold.\<close>

definition write_rows_at ::
  "json list \<Rightarrow> nat list \<Rightarrow> json list \<times> json list list \<times> py_error option" where
  "write_rows_at h refs = (case write_rows (map (nth h) refs) of (rows, err) \<Rightarrow> (h, rows, err))"

text \<open>Every address in \<^verbatim>\<open>results\<close> is the address of an object.\<close>

definition refs_valid :: "store \<Rightarrow> bool" where
  "refs_valid st = list_all (\<lambda>a. a < length (objects st)) (results_at st)"

section \<open>Predicates and sample inputs for the statements about analyze\_papers.py\<close>






text \<open>An article as search\_medical\_papers.py writes it, one without an abstract, a
  well-formed response of the model API carrying the text \<open>s\<close>, and a service that
  answers every request with it.\<close>

definition sample_paper :: json where
  "sample_paper =
     JObj [(''pubmed_id'', JStr ''40250001''), (''title'', JStr ''A trial''),
           (''journal'', JStr ''Lancet''), (''publication_date'', JStr ''2025 Apr 19''),
           (''abstract'', JStr ''BACKGROUND: text''),
           (''url'', JStr ''https://pubmed.ncbi.nlm.nih.gov/40250001/''),
           (''publication_types'', JList [JStr ''Journal Article''])]"


definition answer :: "string \<Rightarrow> json" where
  "answer s =
     JObj [(''candidates'',
            JList [JObj [(''content'', JObj [(''parts'', JList [JObj [(''text'', JStr s)]])])]])]"

definition ok_api :: "nat \<Rightarrow> nat \<Rightarrow> attempt" where
  "ok_api i k = Response 200 (Some (answer ''{}''))"


definition loads_unchecked :: "string \<Rightarrow> json option" where
  "loads_unchecked s =
     Some (JObj [(''is_relevant'', JBool True),
                 (''aspects'', JList [JStr ''Predictive'', JStr ''Predictive'', JStr ''Exciting'']),
                 (''impact_score'', JInt 99)])"


definition key_ge :: "sort_key \<Rightarrow> sort_key \<Rightarrow> bool" where
  "key_ge a b = (key_cmp a b = Some GT \<or> key_cmp a b = Some EQ)"






text \<open>The records the two sample answers lead to.\<close>

definition sample_info :: json where
  "sample_info =
     JObj [(''pubmed_id'', JStr ''40250001''), (''title'', JStr ''A trial''),
           (''url'', JStr ''https://pubmed.ncbi.nlm.nih.gov/40250001/''),
           (''journal'', JStr ''Lancet''), (''publication_date'', JStr ''2025 Apr 19'')]"


definition unchecked_record :: json where
  "unchecked_record =
     JObj [(''is_relevant'', JBool True),
           (''aspects'', JList [JStr ''Predictive'', JStr ''Predictive'', JStr ''Exciting'']),
           (''impact_score'', JInt 99),
           (''paper'', sample_info), (''is_large_trial'', JBool False), (''summary'', JStr []),
           (''revolutionary_aspects'', JNull)]"

text \<open>Sample inputs for search\_medical\_papers.py: a fetch result with one article (the
  one \<open>sample_paper\<close> is built from), an article whose title starts with markup, so that
  the \<^verbatim>\<open>ArticleTitle\<close> element has no text of its own, and two states of the service.\<close>

definition sample_root :: xml where
  "sample_root =
     Elem ''PubmedArticleSet'' [] None
       [Elem ''PubmedArticle'' [] None
          [Elem ''MedlineCitation'' [] None
             [Elem ''PMID'' [(''Version'', ''1'')] (Some ''40250001'') [],
              Elem ''Article'' [] None
                [Elem ''Journal'' [] None
                   [Elem ''JournalIssue'' [] None
                      [Elem ''PubDate'' [] None
                         [Elem ''Year'' [] (Some ''2025'') [],
                          Elem ''Month'' [] (Some ''Apr'') [],
                          Elem ''Day'' [] (Some ''19'') []]],
                    Elem ''Title'' [] (Some ''Lancet'') []],
                 Elem ''ArticleTitle'' [] (Some ''A trial'') [],
                 Elem ''Abstract'' [] None
                   [Elem ''AbstractText'' [(''Label'', ''BACKGROUND'')] (Some ''text'') []],
                 Elem ''PublicationTypeList'' [] None
                   [Elem ''PublicationType'' [] (Some ''Journal Article'') []]]]]]"

definition untitled_article :: xml where
  "untitled_article =
     Elem ''PubmedArticle'' [] None
       [Elem ''MedlineCitation'' [] None
          [Elem ''PMID'' [] (Some ''40250003'') [],
           Elem ''Article'' [] None
             [Elem ''Journal'' [] None [Elem ''Title'' [] (Some ''Lancet'') []],
              Elem ''ArticleTitle'' [] None [Elem ''i'' [] (Some ''BRCA1'') []],
              Elem ''Abstract'' [] None [Elem ''AbstractText'' [] (Some ''text'') []]]]]"

definition untitled_record :: json where
  "untitled_record =
     JObj [(''pubmed_id'', JStr ''40250003''), (''title'', JNull), (''journal'', JStr ''Lancet''),
           (''publication_date'', JStr []), (''abstract'', JStr ''text''),
           (''url'', JStr ''https://pubmed.ncbi.nlm.nih.gov/40250003/''),
           (''publication_types'', JList [])]"

definition sample_pubmed :: pubmed where
  "sample_pubmed =
     \<lparr>esearch = Inr (JObj [(''esearchresult'', JObj [(''idlist'', JList [JStr ''40250001''])])]),
      efetch = Inr ''<PubmedArticleSet>...</PubmedArticleSet>'',
      fromstring = (\<lambda>s. Some sample_root)\<rparr>"

definition empty_pubmed :: pubmed where
  "empty_pubmed =
     \<lparr>esearch = Inr (JObj [(''esearchresult'', JObj [(''idlist'', JList [])])]),
      efetch = Inr [],
      fromstring = (\<lambda>s. None)\<rparr>"


text \<open>A service whose answer to the \<open>i\<close>-th paper carries the text \<open>i\<close>, a parser that
  reads a score out of that text (and no relevance for the fourth paper), and an input
  of four papers.\<close>

definition score_api :: "nat \<Rightarrow> nat \<Rightarrow> attempt" where
  "score_api i k = Response 200 (Some (answer (decimal i)))"

definition loads_scores :: "string \<Rightarrow> json option" where
  "loads_scores s =
     Some (JObj [(''is_relevant'', JBool (s \<noteq> ''3'')),
                 (''impact_score'', JInt (if s = ''0'' then 3 else if s = ''1'' then 9 else 5))])"

definition four_papers :: json where
  "four_papers = JList [sample_paper, sample_paper, sample_paper, sample_paper]"

text \<open>The value state and the store hold the same results.\<close>

definition same_results :: "store \<Rightarrow> loop_state \<Rightarrow> bool" where
  "same_results st ls \<longleftrightarrow> refs_valid st \<and> map (nth (objects st)) (results_at st) = results ls"

text \<open>A store in which one record has been appended already.\<close>

definition one_record_store :: store where
  "one_record_store = \<lparr>objects = [unchecked_record], results_at = [0], relevant_at = []\<rparr>"

section \<open>Properties of the request loop\<close>

lemma call_inv_start: "call_inv api call_start"
  by (simp add: call_inv_def call_start_def)

lemma call_gemini_inv: "call_inv api s \<Longrightarrow> call_inv api (call_gemini api s)"
proof (induction api s rule: call_gemini.induct)
  case (1 api s)
  show ?case
  proof (cases "retry_count s < max_retries \<and> \<not> success s")
    case False
    then have "call_gemini api s = s"
      by (subst call_gemini.simps) (rule if_not_P)
    then show ?thesis using "1.prems" by simp
  next
    case True
    show ?thesis
    proof (cases "api (length (attempts s))")
      case (Response code body)
      show ?thesis
      proof (cases "code = 200")
        case c: True
        let ?s = "s\<lparr>success := True, response := Some (code, body),
                     attempts := attempts s @ [Response code body]\<rparr>"
        have "call_inv api ?s"
          using "1.prems" True Response c by (auto simp: call_inv_def nth_append)
        from "1.IH"(1)[OF True Response c this] show ?thesis
          using True Response c by (simp add: call_gemini.simps[of api s])
      next
        case c: False
        let ?s = "s\<lparr>retry_count := retry_count s + 1, response := Some (code, body),
                  attempts := attempts s @ [Response code body]\<rparr>"
        have inv: "call_inv api ?s"
          using "1.prems" True Response c by (auto simp: call_inv_def nth_append less_Suc_eq)
        show ?thesis
        proof (cases "retry_count s + 1 \<ge> max_retries")
          case True
          then show ?thesis using inv \<open>retry_count s < max_retries \<and> \<not> success s\<close> Response c
            by (simp add: call_gemini.simps[of api s])
        next
          case f: False
          from "1.IH"(2)[OF True Response c f inv] show ?thesis
            using True Response c f by (simp add: call_gemini.simps[of api s])
        qed
      qed
    next
      case Timeout
      have "call_inv api (s\<lparr>retry_count := retry_count s + 1, attempts := attempts s @ [Timeout]\<rparr>)"
        using "1.prems" True Timeout
        by (auto simp: call_inv_def nth_append less_Suc_eq)
      from "1.IH"(3)[OF True Timeout this] show ?thesis
        using True Timeout by (simp add: call_gemini.simps[of api s])
    next
      case RequestError
      have "call_inv api (s\<lparr>retry_count := retry_count s + 1, attempts := attempts s @ [RequestError]\<rparr>)"
        using "1.prems" True RequestError
        by (auto simp: call_inv_def nth_append less_Suc_eq)
      from "1.IH"(4)[OF True RequestError this] show ?thesis
        using True RequestError by (simp add: call_gemini.simps[of api s])
    qed
  qed
qed

lemma call_gemini_done:
  "retry_count (call_gemini api s) \<ge> max_retries \<or> success (call_gemini api s)"
proof (induction api s rule: call_gemini.induct)
  case (1 api s)
  show ?case
  proof (cases "retry_count s < max_retries \<and> \<not> success s")
    case False
    then have "call_gemini api s = s"
      by (subst call_gemini.simps) (rule if_not_P)
    then show ?thesis using False by auto
  next
    case True
    show ?thesis
    proof (cases "api (length (attempts s))")
      case (Response code body)
      then show ?thesis
        using True "1.IH"(1,2)[OF True Response]
        by (simp add: call_gemini.simps[of api s])
    next
      case Timeout
      then show ?thesis
        using True "1.IH"(3)[OF True Timeout]
        by (simp add: call_gemini.simps[of api s])
    next
      case RequestError
      then show ?thesis
        using True "1.IH"(4)[OF True RequestError]
        by (simp add: call_gemini.simps[of api s])
    qed
  qed
qed

lemma call_gemini_final: "call_inv api (call_gemini api call_start)"
  by (rule call_gemini_inv[OF call_inv_start])

lemma error_then_ok_run:
  "call_gemini error_then_ok call_start =
     \<lparr>retry_count = 1, success = True, response = Some (200, Some JNull),
      attempts = [Response 500 None, Response 200 (Some JNull)]\<rparr>"
  by code_simp

text \<open>
  C3, as the code has it. For every paper the loop issues at least one and at most
  \<open>max_retries = 3\<close> requests, they are the oracle's outcomes in order, and a request
  is re-issued exactly after a failed one: a timeout, any other request exception, or a
  response whose status is not 200. The loop stops at the first response with status 200
  or when three attempts have failed.
\<close>

theorem call_gemini_attempts:
  fixes api :: "nat \<Rightarrow> attempt"
  defines "tr \<equiv> attempts (call_gemini api call_start)"
  shows "tr \<noteq> [] \<and> length tr \<le> max_retries \<and>
         (\<forall>i < length tr. tr ! i = api i) \<and>
         (\<forall>i. Suc i < length tr \<longrightarrow> retried (tr ! i)) \<and>
         (success (call_gemini api call_start) \<longleftrightarrow> \<not> retried (last tr)) \<and>
         (\<not> success (call_gemini api call_start) \<longrightarrow> length tr = max_retries)"
proof -
  let ?r = "call_gemini api call_start"
  have inv: "call_inv api ?r" by (rule call_gemini_final)
  have fin: "retry_count ?r \<ge> max_retries \<or> success ?r" by (rule call_gemini_done)
  have len: "length tr = retry_count ?r + (if success ?r then 1 else 0)"
    and le: "retry_count ?r \<le> max_retries"
    and tr: "tr = map api [0..<length tr]"
    and re: "\<forall>i < retry_count ?r. retried (tr ! i)"
    and su: "success ?r \<longrightarrow> \<not> retried (last tr)"
    and sl: "success ?r \<longrightarrow> retry_count ?r < max_retries"
    using inv unfolding call_inv_def tr_def by blast+
  have ne: "tr \<noteq> []" using len fin by (auto simp: max_retries_def)
  have c2: "length tr \<le> max_retries"
  proof (cases "success ?r")
    case True
    with len sl show ?thesis by simp
  next
    case False
    with len le show ?thesis by simp
  qed
  have c3: "\<forall>i < length tr. tr ! i = api i"
  proof (intro allI impI)
    fix i assume "i < length tr"
    then have "map api [0..<length tr] ! i = api i" by simp
    with tr show "tr ! i = api i" by simp
  qed
  have c4: "\<forall>i. Suc i < length tr \<longrightarrow> retried (tr ! i)"
    using re len by auto
  have c5: "success ?r \<longleftrightarrow> \<not> retried (last tr)"
  proof
    assume "success ?r" with su show "\<not> retried (last tr)" by simp
  next
    assume nr: "\<not> retried (last tr)"
    show "success ?r"
    proof (rule ccontr)
      assume ns: "\<not> success ?r"
      with len have l: "length tr = retry_count ?r" by simp
      have "length tr - 1 < retry_count ?r" using l ne by (cases tr) auto
      with re have "retried (tr ! (length tr - 1))" by blast
      moreover have "last tr = tr ! (length tr - 1)" using ne by (simp add: last_conv_nth)
      ultimately show False using nr by simp
    qed
  qed
  have c6: "\<not> success ?r \<longrightarrow> length tr = max_retries"
    using len le fin by auto
  from ne c2 c3 c4 c5 c6 show ?thesis by blast
qed

lemma always_timeout_run:
  "call_gemini always_timeout call_start =
     \<lparr>retry_count = 3, success = False, response = None,
      attempts = [Timeout, Timeout, Timeout]\<rparr>"
  by code_simp

theorem call_gemini_attempts_witness:
  "attempts (call_gemini error_then_ok call_start) \<noteq> [] \<and>
   length (attempts (call_gemini error_then_ok call_start)) \<le> max_retries \<and>
   Suc 0 < length (attempts (call_gemini error_then_ok call_start)) \<and>
   attempts (call_gemini error_then_ok call_start) ! 0 = error_then_ok 0 \<and>
   retried (attempts (call_gemini error_then_ok call_start) ! 0) \<and>
   success (call_gemini error_then_ok call_start) \<and>
   \<not> success (call_gemini always_timeout call_start) \<and>
   length (attempts (call_gemini always_timeout call_start)) = max_retries"
  using call_gemini_attempts[of error_then_ok] call_gemini_attempts[of always_timeout]
  by (simp add: error_then_ok_run always_timeout_run max_retries_def error_then_ok_def)

text \<open>
  C3 as the spec states it fails: after a response with status 500 (not a timeout) the
  request is issued again.
\<close>

theorem reissue_after_error_status:
  "Suc 0 < length (attempts (call_gemini error_then_ok call_start)) \<and>
   attempts (call_gemini error_then_ok call_start) ! 0 = Response 500 None \<and>
   attempts (call_gemini error_then_ok call_start) ! 0 \<noteq> Timeout"
  by (simp add: error_then_ok_run)

section \<open>Properties of analyze\_papers.py\<close>





































section \<open>Properties of search\_medical\_papers.py\<close>

lemma article_record_keys:
  "article_record a = Some r \<Longrightarrow>
     \<exists>kvs. r = JObj kvs \<and> map fst kvs =
       [''pubmed_id'', ''title'', ''journal'', ''publication_date'', ''abstract'', ''url'',
        ''publication_types'']"
  by (auto simp: article_record_def Let_def split: option.splits)

lemma fetch_sample:
  "fetch_papers sample_pubmed =
     (Some ''<PubmedArticleSet>...</PubmedArticleSet>'', Inr (Parsed [sample_paper]))"
  by code_simp

lemma search_empty: "returned (search_medical_papers empty_pubmed None ''20250420'' None) = Inr []"
  by code_simp

text \<open>
  C4 fails on the code. For an article whose \<^verbatim>\<open>ArticleTitle\<close> element has no text of its
  own the record has the seven keys, but its title is \<^verbatim>\<open>None\<close>, not a string; the
  classification script then stops with \<^verbatim>\<open>TypeError\<close> at \<^verbatim>\<open>paper['title'][:50]\<close>.
\<close>

theorem untitled_article_title_none:
  "article_record untitled_article = Some untitled_record \<and>
   py_getitem untitled_record ''title'' = Inr JNull \<and>
   build_prompt untitled_record = Inl TypeError"
  by code_simp

text \<open>
  C8. With the global \<^verbatim>\<open>group_name\<close> undefined, every run that reaches the save step
  with its list of papers raises \<^verbatim>\<open>NameError\<close> and writes no JSON file, and the only
  list the function can return is the empty one of its early exits.
\<close>

theorem import_mode_name_error:
  "(snd (fetch_papers env) = Inr (Parsed papers) \<longrightarrow>
      returned (search_medical_papers env None stamp journals) = Inl NameError \<and>
      papers_file (search_medical_papers env None stamp journals) = None) \<and>
   (returned (search_medical_papers env None stamp journals) = Inr ps \<longrightarrow> ps = [])"
  by (cases "fetch_papers env")
     (auto simp: search_medical_papers_def papers_filename_def split: sum.splits fetched.splits)

theorem import_mode_name_error_witness:
  "snd (fetch_papers sample_pubmed) = Inr (Parsed [sample_paper]) \<and>
   returned (search_medical_papers sample_pubmed None ''20250420'' None) = Inl NameError \<and>
   papers_file (search_medical_papers sample_pubmed None ''20250420'' None) = None \<and>
   returned (search_medical_papers empty_pubmed None ''20250420'' None) = Inr []"
  using import_mode_name_error[of sample_pubmed "[sample_paper]" "''20250420''" None "[]"]
        import_mode_name_error[of empty_pubmed "[]" "''20250420''" None "[]"]
  by (simp add: fetch_sample search_empty)

section \<open>Properties of the two reports\<close>









section \<open>Properties of the ordering of the relevant papers\<close>














text \<open>On integer scores the order of the keys is the lexicographic order of the
  triples.\<close>

lemma key_ge_integers:
  "key_ge (JInt a, r) (JInt b, t) \<longleftrightarrow> (b, t) \<le> (a, r)"
  by (auto simp: key_ge_def py_cmp_def cmp_of_def less_eq_prod_def less_prod_def
           split: option.splits cmp.splits)






lemma comparable_all_Cons:
  "comparable_all (k # ks) \<Longrightarrow> k' \<in> set ks \<Longrightarrow> key_cmp k k' \<noteq> None"
  by (auto simp: list_all_iff)








lemma ranked_scores:
  "(case make_report ''2025-04-20''
           (the (json_file (analyze_papers_with_gemini loads_scores score_api ''2025-04-20''
                              four_papers None))) of
      (md, err) \<Rightarrow> md \<noteq> None \<and> err = None)"
  by code_simp

lemma ranked_order:
  "map_sum id (map (\<lambda>p. py_get p ''impact_score'' (JInt 0)))
     (case relevant_papers
             (the (json_file (analyze_papers_with_gemini loads_scores score_api ''2025-04-20''
                                four_papers None))) of
        Inl e \<Rightarrow> Inl e | Inr rel \<Rightarrow> py_sort_reverse rel)
   = Inr [Inr (JInt 9), Inr (JInt 5), Inr (JInt 3)]"
  by code_simp


section \<open>Properties of the store model\<close>

lemma assign_key_frame:
  "length (assign_key a k v h) = length h"
  "b \<noteq> a \<Longrightarrow> assign_key a k v h ! b = h ! b"
  by (auto simp: assign_key_def split: json.splits)

lemma default_key_frame:
  "length (default_key a k d h) = length h"
  "b \<noteq> a \<Longrightarrow> default_key a k d h ! b = h ! b"
  by (auto simp: default_key_def assign_key_frame split: json.splits)

lemma annotate_at_frame:
  "length (annotate_at a paper h) = length h"
  "b \<noteq> a \<Longrightarrow> annotate_at a paper h ! b = h ! b"
  by (auto simp: annotate_at_def assign_key_frame default_key_frame
           split: json.splits option.splits)

lemma process_paper_at_frame:
  "length (objects st) \<le> length (objects (process_paper_at loads api paper st))"
  "b < length (objects st) \<Longrightarrow> objects (process_paper_at loads api paper st) ! b = objects st ! b"
  "prefix (results_at st) (results_at (process_paper_at loads api paper st))"
  "refs_valid st \<Longrightarrow> refs_valid (process_paper_at loads api paper st)"
  "relevant_at (process_paper_at loads api paper st) = relevant_at st"
  by (auto simp: process_paper_at_def Let_def annotate_at_frame nth_append refs_valid_def
                 list_all_iff
           split: option.splits)

lemma analyze_loop_at_frame:
  assumes "analyze_loop_at loads api i ps st = (st', err)" and "refs_valid st"
  shows "length (objects st) \<le> length (objects st') \<and>
         (\<forall>b < length (objects st). objects st' ! b = objects st ! b) \<and>
         prefix (results_at st) (results_at st') \<and> refs_valid st'"
  using assms
proof (induction ps arbitrary: i st)
  case Nil
  then show ?case by simp
next
  case (Cons p ps)
  show ?case
  proof (cases "build_prompt p")
    case (Inl e)
    with Cons.prems show ?thesis by simp
  next
    case (Inr prompt)
    let ?st = "process_paper_at loads (api i) p st"
    from Inr Cons.prems(1) have l: "analyze_loop_at loads api (Suc i) ps ?st = (st', err)" by simp
    have v: "refs_valid ?st" using Cons.prems(2) by (rule process_paper_at_frame(4))
    note ih = Cons.IH[OF l v]
    note f = process_paper_at_frame[where st = st and loads = loads and api = "api i" and paper = p]
    have "length (objects st) \<le> length (objects st')" using ih f(1) by (auto intro: le_trans)
    moreover have "\<forall>b < length (objects st). objects st' ! b = objects st ! b"
    proof (intro allI impI)
      fix b assume b: "b < length (objects st)"
      then have "b < length (objects ?st)" using f(1) by simp
      then have "objects st' ! b = objects ?st ! b" using ih by blast
      also have "\<dots> = objects st ! b" using b by (rule process_paper_at_frame(2))
      finally show "objects st' ! b = objects st ! b" .
    qed
    moreover have "prefix (results_at st) (results_at st')"
      using ih f(3) by (auto intro: prefix_order.trans)
    ultimately show ?thesis using ih by blast
  qed
qed

lemma finish_at_frame:
  assumes "finish_at today st = (st', md, err)"
  shows "objects st' = objects st \<and> results_at st' = results_at st"
  using assms
  by (auto simp: finish_at_def split: sum.splits if_splits prod.splits option.splits)


lemma assign_key_new:
  "assign_key (length h) k v (h @ [JObj kvs]) = h @ [JObj (AList.update k v kvs)]"
  by (simp add: assign_key_def)

lemma default_key_new:
  "default_key (length h) k d (h @ [JObj kvs]) = h @ [JObj (set_default k d kvs)]"
  by (simp add: default_key_def set_default_def assign_key_new)

lemma annotate_at_new: "annotate_at (length h) paper (h @ [x]) = h @ [annotate paper x]"
  by (cases x; cases "paper_info paper")
     (simp_all add: annotate_at_def annotate_def fill_defaults_def assign_key_new default_key_new)

lemma process_paper_at_same:
  assumes "same_results st ls"
  shows "same_results (process_paper_at loads api paper st) (process_paper loads api paper ls)"
proof (cases "loaded_answer loads (call_gemini api call_start)")
  case None
  with assms show ?thesis
    by (simp add: process_paper_at_def process_paper_def parse_response_def same_results_def Let_def)
next
  case (Some x)
  have old: "map (nth (objects st @ [y])) (results_at st) = map (nth (objects st)) (results_at st)" for y
  proof (rule map_cong[OF refl])
    fix a assume "a \<in> set (results_at st)"
    then have "a < length (objects st)"
      using assms by (auto simp: same_results_def refs_valid_def list_all_iff)
    then show "(objects st @ [y]) ! a = objects st ! a" by (simp add: nth_append)
  qed
  show ?thesis
    using assms Some old
    by (auto simp: process_paper_at_def process_paper_def parse_response_def same_results_def
                   Let_def annotate_at_new refs_valid_def list_all_iff nth_append)
qed

lemma analyze_loop_at_same:
  assumes "same_results st ls"
    and "analyze_loop_at loads api i ps st = (st', err)"
    and "analyze_loop loads api i ps ls = (ls', err')"
  shows "err = err' \<and> same_results st' ls'"
  using assms
proof (induction ps arbitrary: i st ls)
  case Nil
  then show ?case by simp
next
  case (Cons p ps)
  show ?case
  proof (cases "build_prompt p")
    case (Inl e)
    with Cons.prems show ?thesis by simp
  next
    case (Inr prompt)
    from Cons.prems(1) have
      "same_results (process_paper_at loads (api i) p st) (process_paper loads (api i) p ls)"
      by (rule process_paper_at_same)
    from Cons.IH[OF this] Cons.prems(2,3) Inr show ?thesis by simp
  qed
qed

lemma relevant_refs_same:
  "relevant_papers (map (nth h) refs) = map_sum id (map (nth h)) (relevant_refs h refs)"
  by (induction refs) (auto split: sum.splits)

lemma ref_keys_same:
  "sort_keys (map (nth h) refs) = map_sum id (map (apsnd (nth h))) (ref_keys h refs)"
  by (induction refs) (auto split: sum.splits)

lemma insert_desc_map:
  "map (apsnd f) (insert_desc x ys) = insert_desc (apsnd f x) (map (apsnd f) ys)"
  by (induction ys) auto

lemma sort_desc_map: "map (apsnd f) (sort_desc ks) = sort_desc (map (apsnd f) ks)"
  by (induction ks) (simp_all add: sort_desc_def insert_desc_map)

lemma sort_refs_same:
  "py_sort_reverse (map (nth h) refs) = map_sum id (map (nth h)) (sort_refs h refs)"
proof (cases "ref_keys h refs")
  case (Inl e)
  then show ?thesis by (simp add: py_sort_reverse_def sort_refs_def ref_keys_same)
next
  case (Inr ks)
  have "map snd (sort_desc (map (apsnd (nth h)) ks)) = map (nth h) (map snd (sort_desc ks))"
    by (simp add: sort_desc_map[symmetric] comp_def)
  moreover have "map fst (map (apsnd (nth h)) ks) = map fst ks" by (simp add: comp_def)
  ultimately show ?thesis
    using Inr by (simp add: py_sort_reverse_def sort_refs_def ref_keys_same)
qed

lemma finish_at_same:
  assumes "finish_at today st = (st', md, err)"
  shows "make_report today (map (nth (objects st)) (results_at st)) = (md, err)"
proof (cases "relevant_refs (objects st) (results_at st)")
  case (Inl e)
  with assms show ?thesis by (simp add: finish_at_def make_report_def relevant_refs_same)
next
  case rel: (Inr relevant)
  show ?thesis
  proof (cases "relevant = []")
    case True
    with assms rel show ?thesis by (simp add: finish_at_def make_report_def relevant_refs_same)
  next
    case False
    show ?thesis
    proof (cases "sort_refs (objects st) relevant")
      case (Inl e)
      with assms rel False show ?thesis
        by (simp add: finish_at_def make_report_def relevant_refs_same sort_refs_same)
    next
      case (Inr ranked)
      with assms rel False show ?thesis
        by (auto simp: finish_at_def make_report_def relevant_refs_same sort_refs_same take_map
                 split: prod.splits option.splits)
    qed
  qed
qed

lemma store_run_same:
  assumes "same_results st ls"
    and "analyze_loop_at loads api i ps st = (st1, err)"
    and "analyze_loop loads api i ps ls = (ls1, err')"
    and "finish_at today st1 = (st2, md, err2)"
  shows "err = err' \<and> map (nth (objects st1)) (results_at st1) = results ls1 \<and>
         make_report today (results ls1) = (md, err2)"
proof -
  from analyze_loop_at_same[OF assms(1,2,3)] have
    s: "err = err'" "map (nth (objects st1)) (results_at st1) = results ls1"
    by (simp_all add: same_results_def)
  from finish_at_same[OF assms(4)] s show ?thesis by simp
qed

text \<open>
  C7. Start between two iterations of the loop, with any records appended so far. After
  the remaining iterations, the sort, the report and the console output, every object
  that existed holds the value it held, so every field of every appended record is
  unchanged; \<^verbatim>\<open>results\<close> still begins with the same addresses, and the steps after the
  loop change neither an object nor \<^verbatim>\<open>results\<close>. Writing the CSV rows leaves the article
  objects as they were.
\<close>

theorem records_unchanged_after_append:
  assumes "refs_valid st"
    and "analyze_loop_at loads api i ps st = (st1, err)"
    and "finish_at today st1 = (st2, md, err2)"
  shows "list_all (\<lambda>a. objects st2 ! a = objects st ! a) [0..<length (objects st)] \<and>
         list_all (\<lambda>a. objects st2 ! a = objects st ! a) (results_at st) \<and>
         prefix (results_at st) (results_at st2) \<and>
         objects st2 = objects st1 \<and> results_at st2 = results_at st1 \<and>
         fst (write_rows_at h refs) = h"
proof -
  note l = analyze_loop_at_frame[OF assms(2,1)]
  note f = finish_at_frame[OF assms(3)]
  have a: "\<forall>b < length (objects st). objects st2 ! b = objects st ! b" using l f by simp
  have "list_all (\<lambda>a. objects st2 ! a = objects st ! a) [0..<length (objects st)]"
    using a by (simp add: list_all_iff)
  moreover have "list_all (\<lambda>a. objects st2 ! a = objects st ! a) (results_at st)"
    using a assms(1) by (auto simp: list_all_iff refs_valid_def)
  moreover have "prefix (results_at st) (results_at st2)" using l f by simp
  moreover have "fst (write_rows_at h refs) = h"
    by (simp add: write_rows_at_def split: prod.splits)
  ultimately show ?thesis using f by blast
qed

lemma one_record_loop:
  "analyze_loop_at loads_unchecked ok_api 1 [sample_paper] one_record_store =
     (\<lparr>objects = [unchecked_record, unchecked_record], results_at = [0, 1], relevant_at = []\<rparr>,
      None)"
  by code_simp

lemma one_record_finish:
  "fst (finish_at ''2025-04-20''
         \<lparr>objects = [unchecked_record, unchecked_record], results_at = [0, 1], relevant_at = []\<rparr>) =
     \<lparr>objects = [unchecked_record, unchecked_record], results_at = [0, 1], relevant_at = [0, 1]\<rparr>"
  by code_simp

theorem records_unchanged_after_append_witness:
  "refs_valid one_record_store \<and> results_at one_record_store = [0] \<and>
   objects (fst (finish_at ''2025-04-20''
     (fst (analyze_loop_at loads_unchecked ok_api 1 [sample_paper] one_record_store)))) ! 0 =
     objects one_record_store ! 0 \<and>
   results_at (fst (finish_at ''2025-04-20''
     (fst (analyze_loop_at loads_unchecked ok_api 1 [sample_paper] one_record_store)))) = [0, 1] \<and>
   relevant_at (fst (finish_at ''2025-04-20''
     (fst (analyze_loop_at loads_unchecked ok_api 1 [sample_paper] one_record_store)))) = [0, 1]"
proof -
  have v: "refs_valid one_record_store" by code_simp
  obtain st2 md e2 where
    f: "finish_at ''2025-04-20''
          \<lparr>objects = [unchecked_record, unchecked_record], results_at = [0, 1], relevant_at = []\<rparr>
        = (st2, md, e2)"
    by (metis prod.collapse)
  have g: "fst (finish_at ''2025-04-20''
              (fst (analyze_loop_at loads_unchecked ok_api 1 [sample_paper] one_record_store))) =
           \<lparr>objects = [unchecked_record, unchecked_record], results_at = [0, 1],
            relevant_at = [0, 1]\<rparr>"
    by (simp only: one_record_loop fst_conv one_record_finish)
  from records_unchanged_after_append[OF v one_record_loop f, of "[]" "[]"] v
  show ?thesis unfolding g by (simp add: one_record_store_def)
qed

end
